theory Spec2Isabelle
  imports Complex_Main
begin

section \<open>Python values as the plugin routes see them\<close>

text \<open>
  The routes of \<^verbatim>\<open>src/panel/plugin.py\<close> work on whatever \<^verbatim>\<open>request.json()\<close> returns:
  any JSON value, not only an object. A Python \<^verbatim>\<open>dict\<close> is kept as an association list in
  insertion order (its keys are distinct in Python). A JSON number with a fraction or an
  exponent is a Python float; the model keeps its exact rational value. Non-finite floats
  are not JSON (RFC 8259) and are left out.
\<close>

datatype json =
    JNull
  | JBool bool
  | JInt int
  | JFloat rat
  | JStr string
  | JArr "json list"
  | JObj "(string \<times> json) list"

type_synonym dict = "(string \<times> json) list"

text \<open>Python truthiness, as used by \<^verbatim>\<open>if x:\<close>, \<^verbatim>\<open>not x\<close> and \<^verbatim>\<open>bool(x)\<close>.\<close>

fun truthy :: "json \<Rightarrow> bool" where
  "truthy JNull = False"
| "truthy (JBool b) = b"
| "truthy (JInt i) = (i \<noteq> 0)"
| "truthy (JFloat r) = (r \<noteq> 0)"
| "truthy (JStr s) = (s \<noteq> [])"
| "truthy (JArr xs) = (xs \<noteq> [])"
| "truthy (JObj kvs) = (kvs \<noteq> [])"

text \<open>
  Python's \<^verbatim>\<open>==\<close> on JSON values: booleans, ints and floats compare by numeric value
  (\<^verbatim>\<open>True == 1 == 1.0\<close>), lists element by element, dicts key by key whatever the order,
  and values of different kinds are unequal.
\<close>

fun num_of :: "json \<Rightarrow> rat option" where
  "num_of (JBool b) = Some (if b then 1 else 0)"
| "num_of (JInt i) = Some (of_int i)"
| "num_of (JFloat r) = Some r"
| "num_of _ = None"

fun py_eq :: "json \<Rightarrow> json \<Rightarrow> bool" where
  "py_eq JNull JNull = True"
| "py_eq (JStr s) (JStr t) = (s = t)"
| "py_eq (JArr xs) (JArr ys) = list_all2 py_eq xs ys"
| "py_eq (JObj a) (JObj b) =
     (length a = length b \<and>
      list_all (\<lambda>(k, v). case map_of b k of None \<Rightarrow> False | Some w \<Rightarrow> py_eq v w) a)"
| "py_eq a b = (case (num_of a, num_of b) of (Some x, Some y) \<Rightarrow> x = y | _ \<Rightarrow> False)"

text \<open>\<^verbatim>\<open>d.get(k, default)\<close> on a dict.\<close>

definition dict_get :: "dict \<Rightarrow> string \<Rightarrow> json \<Rightarrow> json" where
  "dict_get d k dflt = (case map_of d k of None \<Rightarrow> dflt | Some v \<Rightarrow> v)"

text \<open>\<^verbatim>\<open>s.startswith(p)\<close> and \<^verbatim>\<open>s.endswith(p)\<close> on strings.\<close>

definition startswith :: "string \<Rightarrow> string \<Rightarrow> bool" where
  "startswith s p = (take (length p) s = p)"

definition endswith :: "string \<Rightarrow> string \<Rightarrow> bool" where
  "endswith s p = (length p \<le> length s \<and> drop (length s - length p) s = p)"

text \<open>\<^verbatim>\<open>str(i)\<close> of a Python int: decimal digits, with a minus sign when negative.\<close>

fun digits :: "nat \<Rightarrow> string" where
  "digits n =
     (if n < 10 then [''0123456789'' ! n]
      else digits (n div 10) @ [''0123456789'' ! (n mod 10)])"

declare digits.simps [simp del]

definition str_int :: "int \<Rightarrow> string" where
  "str_int i = (if i < 0 then CHR ''-'' # digits (nat (- i)) else digits (nat i))"

section \<open>Errors, requests and the external collaborators\<close>

text \<open>
  The \<^verbatim>\<open>detail\<close> of each \<^verbatim>\<open>HTTPException\<close> the routes raise. The source's messages are
  Chinese text; each constructor stands for one of them, named by its meaning:
  \<^item> \<open>InvalidJson\<close>: line 87, "invalid JSON";
  \<^item> \<open>TokenNotConfigured\<close>: lines 33 and 92, "plugin connection has no connection_token configured";
  \<^item> \<open>PluginNotConfigured\<close>: line 188, "plugin connection not configured";
  \<^item> \<open>InvalidToken\<close>: lines 47, 100 and 195, "invalid connection token";
  \<^item> \<open>MissingCredential\<close>: line 111, "credential data missing";
  \<^item> \<open>MissingIdentity\<close>: line 119, "the credential needs client_id and refresh_token".

  \<open>AttributeError\<close> is the Python exception of calling \<^verbatim>\<open>.get\<close>, \<^verbatim>\<open>.endswith\<close> or
  \<^verbatim>\<open>.replace\<close> on a value that has no such method. Where no \<^verbatim>\<open>except\<close> catches it, it
  leaves the route function.
\<close>

datatype detail =
    InvalidJson
  | TokenNotConfigured
  | PluginNotConfigured
  | InvalidToken
  | MissingCredential
  | MissingIdentity

datatype error =
    HTTPException nat detail
  | AttributeError

text \<open>
  What a route reads of the request: the \<^verbatim>\<open>authorization\<close> header (absent: \<open>None\<close>) and
  the result of \<^verbatim>\<open>await request.json()\<close>, \<open>None\<close> when it raises.
\<close>

record request =
  authorization :: "string option"
  json_body :: "json option"

datatype mode = Geminicli | Antigravity

text \<open>
  A Python \<^verbatim>\<open>datetime\<close>: naive (no \<^verbatim>\<open>tzinfo\<close>) or aware, holding microseconds since
  the epoch (of wall-clock time when naive, of UTC when aware). Subtracting datetimes gives
  a \<^verbatim>\<open>timedelta\<close>, here its microseconds, and raises \<^verbatim>\<open>TypeError\<close> (\<open>None\<close>) when one is
  naive and the other aware.
\<close>

datatype datetime = Naive int | Aware int

fun sub_datetime :: "datetime \<Rightarrow> datetime \<Rightarrow> int option" where
  "sub_datetime (Aware a) (Aware b) = Some (a - b)"
| "sub_datetime (Naive a) (Naive b) = Some (a - b)"
| "sub_datetime _ _ = None"

text \<open>
  What the routes read from outside the request and the store:
  \<^item> \<open>plugin_token\<close>: the value of \<^verbatim>\<open>_get_plugin_token()\<close>, the configured secret
    (\<^verbatim>\<open>""\<close> by default);
  \<^item> \<open>unix_time\<close>: \<^verbatim>\<open>int(time.time())\<close>;
  \<^item> \<open>utc_now\<close>: \<^verbatim>\<open>datetime.now(timezone.utc)\<close>, in microseconds since the epoch;
  \<^item> \<open>fromisoformat\<close>: \<^verbatim>\<open>datetime.fromisoformat\<close>, \<open>None\<close> when it raises \<^verbatim>\<open>ValueError\<close>;
  \<^item> \<open>py_repr\<close>: \<^verbatim>\<open>str(v)\<close> for a float, a list or a dict placed in an f-string.
\<close>

record env =
  plugin_token :: string
  unix_time :: int
  utc_now :: int
  fromisoformat :: "string \<Rightarrow> datetime option"
  py_repr :: "json \<Rightarrow> string"

text \<open>
  The storage adapter. A read either raises or returns a dict or \<^verbatim>\<open>None\<close>. The field
  \<open>writes\<close> logs each call of a credential writer, so that "no write occurs" can be said.
\<close>

datatype 'a outcome = Raises | Returns 'a

record store =
  list_credentials :: "mode \<Rightarrow> string list"
  get_credential :: "string \<Rightarrow> mode \<Rightarrow> dict option outcome"
  get_credential_state :: "string \<Rightarrow> mode \<Rightarrow> dict option outcome"
  writes :: "(mode \<times> string \<times> dict) list"

text \<open>
  Modelled from the spec: \<^verbatim>\<open>credential_manager.add_credential\<close> and
  \<^verbatim>\<open>credential_manager.add_antigravity_credential\<close> are not among the source files. The
  spec gives both as "idempotent overwrite-by-filename", one per mode, after which "a
  subsequent scan under the same mode lists the new filename".
\<close>

definition write_credential :: "mode \<Rightarrow> string \<Rightarrow> dict \<Rightarrow> store \<Rightarrow> store" where
  "write_credential m filename credential st =
     st\<lparr>list_credentials :=
          (\<lambda>m'. if m' = m \<and> filename \<notin> set (list_credentials st m)
                then list_credentials st m @ [filename] else list_credentials st m'),
        get_credential :=
          (\<lambda>f m'. if f = filename \<and> m' = m then Returns (Some credential)
                  else get_credential st f m'),
        writes := writes st @ [(m, filename, credential)]\<rparr>"

definition add_credential :: "string \<Rightarrow> dict \<Rightarrow> store \<Rightarrow> store" where
  "add_credential filename credential st = write_credential Geminicli filename credential st"

definition add_antigravity_credential :: "string \<Rightarrow> dict \<Rightarrow> store \<Rightarrow> store" where
  "add_antigravity_credential filename credential st =
     write_credential Antigravity filename credential st"

section \<open>The intake route: \<^verbatim>\<open>update_token\<close>\<close>

text \<open>
  Lines 90 to 100 of \<^verbatim>\<open>update_token\<close>, and the same code at lines 186 to 195 of
  \<^verbatim>\<open>check_tokens\<close> (which differs only in the detail of its 503): the check of the
  connection token. \<^verbatim>\<open>body.get("token", "")\<close> is the first use of the body, so a body
  that is not a dict raises \<^verbatim>\<open>AttributeError\<close> there, after the 503 check. A header that
  starts with \<^verbatim>\<open>"Bearer "\<close> replaces the body's token.
\<close>

definition request_token :: "request \<Rightarrow> dict \<Rightarrow> json" where
  "request_token req body =
     (let req_token = dict_get body ''token'' (JStr '''');
          auth = (case authorization req of None \<Rightarrow> '''' | Some a \<Rightarrow> a)
      in if startswith auth ''Bearer '' then JStr (drop 7 auth) else req_token)"

definition check_connection_token :: "detail \<Rightarrow> env \<Rightarrow> request \<Rightarrow> json \<Rightarrow> error + dict" where
  "check_connection_token unconfigured env req body_json =
     (if plugin_token env = [] then Inl (HTTPException 503 unconfigured)
      else case body_json of
        JObj body \<Rightarrow>
          (let req_token = request_token req body
           in if \<not> truthy req_token \<or> \<not> py_eq req_token (JStr (plugin_token env))
              then Inl (HTTPException 401 InvalidToken)
              else Inr body)
      | _ \<Rightarrow> Inl AttributeError)"

text \<open>
  Lines 103 to 108: the nested \<^verbatim>\<open>credential\<close> when it is truthy, otherwise the body's
  recognised fields with truthy values.
\<close>

definition cred_keys :: "string list" where
  "cred_keys = [''client_id'', ''client_secret'', ''refresh_token'', ''token'',
                ''access_token'', ''scopes'', ''token_uri'', ''project_id'', ''expiry'']"

definition extract_credential :: "dict \<Rightarrow> json" where
  "extract_credential body =
     (let credential = dict_get body ''credential'' JNull
      in if \<not> truthy credential
         then JObj (filter (\<lambda>(k, v). k \<in> set cred_keys \<and> truthy v) body)
         else credential)"

text \<open>
  Lines 110 to 120: the checks of the extracted credential. \<^verbatim>\<open>credential.get\<close> raises
  \<^verbatim>\<open>AttributeError\<close> on a truthy value that is not a dict.
\<close>

definition validate_credential :: "json \<Rightarrow> error + dict" where
  "validate_credential credential =
     (if \<not> truthy credential then Inl (HTTPException 400 MissingCredential)
      else case credential of
        JObj cred \<Rightarrow>
          (let has_refresh = truthy (dict_get cred ''refresh_token'' JNull);
               has_client = truthy (dict_get cred ''client_id'' JNull)
           in if \<not> has_refresh \<or> \<not> has_client
              then Inl (HTTPException 400 MissingIdentity)
              else Inr cred)
      | _ \<Rightarrow> Inl AttributeError)"

text \<open>
  Lines 122 to 124: any \<^verbatim>\<open>mode\<close> other than the two known strings becomes
  \<^verbatim>\<open>"geminicli"\<close>.
\<close>

definition resolve_mode :: "dict \<Rightarrow> mode" where
  "resolve_mode body =
     (let m = dict_get body ''mode'' (JStr ''geminicli'')
      in if py_eq m (JStr ''geminicli'') then Geminicli
         else if py_eq m (JStr ''antigravity'') then Antigravity
         else Geminicli)"

text \<open>
  \<^verbatim>\<open>str(v)\<close> as an f-string field renders it. Lines 126 to 135: the file name, the
  caller's or one built from \<^verbatim>\<open>name\<close>, \<^verbatim>\<open>project_id\<close> and the time; \<^verbatim>\<open>".json"\<close> is
  appended when missing. \<^verbatim>\<open>filename.endswith\<close> raises \<^verbatim>\<open>AttributeError\<close> on a truthy
  value that is not a string.
\<close>

definition py_str :: "env \<Rightarrow> json \<Rightarrow> string" where
  "py_str env v =
     (case v of
        JStr s \<Rightarrow> s
      | JInt i \<Rightarrow> str_int i
      | JBool b \<Rightarrow> (if b then ''True'' else ''False'')
      | JNull \<Rightarrow> ''None''
      | _ \<Rightarrow> py_repr env v)"

definition ensure_json_suffix :: "string \<Rightarrow> string" where
  "ensure_json_suffix filename =
     (if \<not> endswith filename ''.json'' then filename @ ''.json'' else filename)"

definition make_filename :: "env \<Rightarrow> dict \<Rightarrow> dict \<Rightarrow> error + string" where
  "make_filename env body credential =
     (let filename = dict_get body ''filename'' (JStr '''')
      in if \<not> truthy filename then
           (let project_id = dict_get credential ''project_id'' (JStr ''plugin'');
                name = dict_get body ''name'' (JStr '''');
                ts = unix_time env;
                prefix = (if truthy name then py_str env name @ ''-'' else '''')
            in Inr (ensure_json_suffix
                      (prefix @ py_str env project_id @ ''-'' @ str_int ts @ ''.json'')))
         else case filename of
           JStr f \<Rightarrow> Inr (ensure_json_suffix f)
         | _ \<Rightarrow> Inl AttributeError)"

text \<open>
  Lines 144 to 154: the scan of the stored files for one whose record has the candidate's
  \<^verbatim>\<open>project_id\<close>. A read that raises is skipped (\<^verbatim>\<open>continue\<close>); the first match ends
  the loop (\<^verbatim>\<open>break\<close>).
\<close>

fun find_existing :: "store \<Rightarrow> mode \<Rightarrow> json \<Rightarrow> string list \<Rightarrow> string option" where
  "find_existing st m project_id [] = None"
| "find_existing st m project_id (ef # efs) =
     (case get_credential st ef m of
        Raises \<Rightarrow> find_existing st m project_id efs
      | Returns existing_data \<Rightarrow>
          (case existing_data of
             None \<Rightarrow> find_existing st m project_id efs
           | Some d \<Rightarrow>
               if d \<noteq> [] \<and> py_eq (dict_get d ''project_id'' JNull) project_id
               then Some ef
               else find_existing st m project_id efs))"

text \<open>
  The JSON content of the 200 response: its \<^verbatim>\<open>filename\<close>, \<^verbatim>\<open>action\<close> and \<^verbatim>\<open>id\<close>
  (\<^verbatim>\<open>success\<close> is always true; \<^verbatim>\<open>message\<close> is a Chinese sentence fixed by
  \<^verbatim>\<open>action\<close> and is left out).
\<close>

record update_response =
  resp_filename :: string
  resp_action :: string
  resp_id :: string

text \<open>Lines 137 to 171: deduplication, the write and the response.\<close>

definition store_credential ::
  "store \<Rightarrow> mode \<Rightarrow> dict \<Rightarrow> string \<Rightarrow> update_response \<times> store" where
  "store_credential st m credential filename0 =
     (let existing_files = list_credentials st m;
          project_id = dict_get credential ''project_id'' (JStr '''');
          found = (if truthy project_id then find_existing st m project_id existing_files
                   else None);
          filename = (case found of Some ef \<Rightarrow> ef | None \<Rightarrow> filename0);
          updated_existing = (found \<noteq> None);
          st' = (if m = Antigravity then add_antigravity_credential filename credential st
                 else add_credential filename credential st);
          action = (if updated_existing then ''updated'' else ''created'')
      in (\<lparr>resp_filename = filename, resp_action = action, resp_id = filename\<rparr>, st'))"

definition update_token :: "env \<Rightarrow> store \<Rightarrow> request \<Rightarrow> (error + update_response) \<times> store" where
  "update_token env st req =
     (case json_body req of
        None \<Rightarrow> (Inl (HTTPException 400 InvalidJson), st)
      | Some body_json \<Rightarrow>
          (case check_connection_token TokenNotConfigured env req body_json of
             Inl e \<Rightarrow> (Inl e, st)
           | Inr body \<Rightarrow>
               (case validate_credential (extract_credential body) of
                  Inl e \<Rightarrow> (Inl e, st)
                | Inr credential \<Rightarrow>
                    (case make_filename env body credential of
                       Inl e \<Rightarrow> (Inl e, st)
                     | Inr filename \<Rightarrow>
                         (case store_credential st (resolve_mode body) credential filename of
                            (resp, st') \<Rightarrow> (Inr resp, st'))))))"

text \<open>
  The helper \<^verbatim>\<open>_verify_plugin_token\<close> (lines 29 to 49), which no route calls: it checks
  the secret before it reads the body, and reads the body's token inside a
  \<^verbatim>\<open>try ... except Exception\<close>, so a malformed body or one that is not a dict gives an empty
  token and the 401.
\<close>

definition verify_plugin_token :: "env \<Rightarrow> request \<Rightarrow> error + json" where
  "verify_plugin_token env req =
     (if plugin_token env = [] then Inl (HTTPException 503 TokenNotConfigured)
      else
        (let auth = (case authorization req of None \<Rightarrow> '''' | Some a \<Rightarrow> a);
             req_token =
               (if startswith auth ''Bearer '' then JStr (drop 7 auth)
                else case json_body req of
                  Some (JObj body) \<Rightarrow> dict_get body ''token'' (JStr '''')
                | _ \<Rightarrow> JStr '''')
         in if \<not> truthy req_token \<or> \<not> py_eq req_token (JStr (plugin_token env))
            then Inl (HTTPException 401 InvalidToken)
            else Inr req_token))"

section \<open>The query route: \<^verbatim>\<open>check_tokens\<close>\<close>

text \<open>
  One entry of the response's \<^verbatim>\<open>tokens\<close> list (lines 229 to 235); \<open>tok_filename\<close> is
  its \<^verbatim>\<open>filename\<close>. \<^verbatim>\<open>email\<close> and \<^verbatim>\<open>error_codes\<close> are whatever the state holds.
\<close>

record token_status =
  tok_filename :: string
  email :: json
  is_active :: bool
  needs_refresh :: bool
  error_codes :: json

record check_response =
  tokens :: "token_status list"
  needs_refresh_emails :: "json list"

text \<open>
  \<^verbatim>\<open>expiry.replace("Z", "+00:00")\<close>: every \<^verbatim>\<open>Z\<close> of the string is replaced.
\<close>

definition replace_Z :: "string \<Rightarrow> string" where
  "replace_Z s = concat (map (\<lambda>c. if c = CHR ''Z'' then ''+00:00'' else [c]) s)"

text \<open>
  Lines 214 to 227. \<^verbatim>\<open>needs_refresh\<close> starts as \<^verbatim>\<open>False\<close> and is only set under
  \<^verbatim>\<open>if cred:\<close>, which a missing record (\<^verbatim>\<open>None\<close>) and an empty dict both fail. Inside,
  every exception of the \<^verbatim>\<open>try\<close> gives \<^verbatim>\<open>True\<close>: the \<^verbatim>\<open>AttributeError\<close> of
  \<^verbatim>\<open>.replace\<close> on a truthy expiry that is not a string, the \<^verbatim>\<open>ValueError\<close> of
  \<^verbatim>\<open>fromisoformat\<close>, and the \<^verbatim>\<open>TypeError\<close> of subtracting the aware \<^verbatim>\<open>now\<close> from
  a naive datetime. \<^verbatim>\<open>total_seconds()\<close> is the float nearest to the timedelta's microseconds
  divided by 1000000; rounding is monotone and 300 is a float, so \<^verbatim>\<open>total_seconds() < 300\<close>
  holds exactly when the microseconds are below 300000000.
\<close>

definition compute_needs_refresh :: "env \<Rightarrow> dict option \<Rightarrow> bool" where
  "compute_needs_refresh env cred =
     (case cred of
        None \<Rightarrow> False
      | Some c \<Rightarrow>
          if c = [] then False
          else
            (let expiry = dict_get c ''expiry'' (JStr '''')
             in if truthy expiry then
                  (case expiry of
                     JStr s \<Rightarrow>
                       (case fromisoformat env (replace_Z s) of
                          None \<Rightarrow> True
                        | Some exp_dt \<Rightarrow>
                            (case sub_datetime exp_dt (Aware (utc_now env)) of
                               None \<Rightarrow> True
                             | Some delta \<Rightarrow> delta < 300 * 1000000))
                   | _ \<Rightarrow> True)
                else True))"

text \<open>
  Lines 209 to 211: \<^verbatim>\<open>(state or {}).get(key, default) if state else default\<close>.
\<close>

definition state_get :: "dict option \<Rightarrow> string \<Rightarrow> json \<Rightarrow> json" where
  "state_get state k dflt =
     (case state of
        None \<Rightarrow> dflt
      | Some d \<Rightarrow> if d = [] then dflt else dict_get d k dflt)"

text \<open>
  Lines 206 to 237, the body of the loop: \<open>None\<close> when a read raises (the \<^verbatim>\<open>except\<close>
  logs a warning and nothing is appended). The state is read before the credential.
\<close>

definition token_summary :: "env \<Rightarrow> store \<Rightarrow> mode \<Rightarrow> string \<Rightarrow> token_status option" where
  "token_summary env st m f =
     (case get_credential_state st f m of
        Raises \<Rightarrow> None
      | Returns state \<Rightarrow>
          (case get_credential st f m of
             Raises \<Rightarrow> None
           | Returns cred \<Rightarrow>
               (let e = state_get state ''user_email'' (JStr '''');
                    disabled = state_get state ''disabled'' (JBool False);
                    codes = state_get state ''error_codes'' (JArr [])
                in Some \<lparr>tok_filename = f, email = e, is_active = (\<not> truthy disabled),
                         needs_refresh = compute_needs_refresh env cred,
                         error_codes = codes\<rparr>)))"

text \<open>Lines 204 to 237: the loop over the listed files, appending to \<^verbatim>\<open>tokens\<close>.\<close>

fun collect_tokens ::
  "env \<Rightarrow> store \<Rightarrow> mode \<Rightarrow> string list \<Rightarrow> token_status list \<Rightarrow> token_status list" where
  "collect_tokens env st m [] acc = acc"
| "collect_tokens env st m (f # fs) acc =
     (case token_summary env st m f of
        None \<Rightarrow> collect_tokens env st m fs acc
      | Some t \<Rightarrow> collect_tokens env st m fs (acc @ [t]))"

text \<open>
  The route. A body that does not parse is taken as \<^verbatim>\<open>{}\<close> (lines 180 to 183). The
  comprehension of lines 242 to 244 is a loop over \<^verbatim>\<open>tokens\<close> that appends the email of
  each entry passing the test.
\<close>

fun refresh_emails :: "token_status list \<Rightarrow> json list" where
  "refresh_emails [] = []"
| "refresh_emails (t # ts) =
     (if needs_refresh t \<and> is_active t \<and> truthy (email t)
      then email t # refresh_emails ts
      else refresh_emails ts)"

definition query_body :: "request \<Rightarrow> json" where
  "query_body req = (case json_body req of None \<Rightarrow> JObj [] | Some b \<Rightarrow> b)"

definition check_tokens :: "env \<Rightarrow> store \<Rightarrow> request \<Rightarrow> error + check_response" where
  "check_tokens env st req =
     (let body_json = query_body req
      in case check_connection_token PluginNotConfigured env req body_json of
           Inl e \<Rightarrow> Inl e
         | Inr body \<Rightarrow>
             (let m = resolve_mode body;
                  files = list_credentials st m;
                  toks = collect_tokens env st m files []
              in Inr \<lparr>tokens = toks, needs_refresh_emails = refresh_emails toks\<rparr>))"

section \<open>Example inputs\<close>

text \<open>
  An environment with the secret \<^verbatim>\<open>"S"\<close>, the clock at 1700000000 seconds
  (2023-11-14T22:13:20 UTC), and \<^verbatim>\<open>datetime.fromisoformat\<close> tabulated on the strings the
  examples use: an aware time 200 seconds ahead, an aware time one hour ahead, and the
  latter without an offset (a naive datetime).
\<close>

definition demo_fromisoformat :: "string \<Rightarrow> datetime option" where
  "demo_fromisoformat s =
     (if s = ''2023-11-14T22:16:40+00:00'' then Some (Aware 1700000200000000)
      else if s = ''2023-11-14T23:13:20+00:00'' then Some (Aware 1700003600000000)
      else if s = ''2023-11-14T23:13:20'' then Some (Naive 1700003600000000)
      else None)"

definition demo_env :: env where
  "demo_env =
     \<lparr>plugin_token = ''S'', unix_time = 1700000000, utc_now = 1700000000000000,
      fromisoformat = demo_fromisoformat, py_repr = (\<lambda>v. ''?'')\<rparr>"

definition unconfigured_env :: env where
  "unconfigured_env = demo_env\<lparr>plugin_token := ''''\<rparr>"

text \<open>
  A store for the query route. Under \<^verbatim>\<open>geminicli\<close> it lists six files: one expiring in
  an hour, one expiring in 200 seconds, one with no credential record, one whose record is
  the empty dict, one whose expiry has no offset, and one whose state cannot be read.
\<close>

definition query_creds :: "(string \<times> dict option outcome) list" where
  "query_creds =
     [(''fresh.json'', Returns (Some [(''client_id'', JStr ''c''),
                                      (''expiry'', JStr ''2023-11-14T23:13:20Z'')])),
      (''stale.json'', Returns (Some [(''client_id'', JStr ''c''),
                                      (''expiry'', JStr ''2023-11-14T22:16:40Z'')])),
      (''norecord.json'', Returns None),
      (''empty.json'', Returns (Some [])),
      (''naive.json'', Returns (Some [(''client_id'', JStr ''c''),
                                      (''expiry'', JStr ''2023-11-14T23:13:20'')])),
      (''broken.json'', Returns (Some [(''client_id'', JStr ''c'')]))]"

definition query_states :: "(string \<times> dict option outcome) list" where
  "query_states =
     [(''fresh.json'', Returns (Some [(''user_email'', JStr ''a@x'')])),
      (''stale.json'', Returns (Some [(''user_email'', JStr ''b@x'')])),
      (''norecord.json'', Returns (Some [(''user_email'', JStr ''c@x''),
                                         (''disabled'', JBool True),
                                         (''error_codes'', JArr [JInt 429])])),
      (''empty.json'', Returns None),
      (''naive.json'', Returns (Some [(''user_email'', JStr ''b@x'')])),
      (''broken.json'', Raises)]"

definition query_store :: store where
  "query_store =
     \<lparr>list_credentials = (\<lambda>m. if m = Geminicli then map fst query_creds else []),
      get_credential =
        (\<lambda>f m. if m = Geminicli
                then (case map_of query_creds f of Some r \<Rightarrow> r | None \<Rightarrow> Returns None)
                else Returns None),
      get_credential_state =
        (\<lambda>f m. if m = Geminicli
                then (case map_of query_states f of Some r \<Rightarrow> r | None \<Rightarrow> Returns None)
                else Returns None),
      writes = []\<rparr>"

definition query_request :: request where
  "query_request =
     \<lparr>authorization = Some ''Bearer S'', json_body = Some (JObj [(''mode'', JStr ''geminicli'')])\<rparr>"

text \<open>
  A store for the intake route. Under \<^verbatim>\<open>geminicli\<close> it lists four files: one that
  cannot be read, one of project \<^verbatim>\<open>p0\<close>, and two of project \<^verbatim>\<open>p1\<close>.
\<close>

definition intake_creds :: "(string \<times> dict option outcome) list" where
  "intake_creds =
     [(''unreadable.json'', Raises),
      (''other.json'', Returns (Some [(''project_id'', JStr ''p0'')])),
      (''legacy.json'', Returns (Some [(''project_id'', JStr ''p1''),
                                  (''refresh_token'', JStr ''old'')])),
      (''p1-copy.json'', Returns (Some [(''project_id'', JStr ''p1'')]))]"

definition intake_store :: store where
  "intake_store =
     \<lparr>list_credentials = (\<lambda>m. if m = Geminicli then map fst intake_creds else []),
      get_credential =
        (\<lambda>f m. if m = Geminicli
                then (case map_of intake_creds f of Some r \<Rightarrow> r | None \<Rightarrow> Returns None)
                else Returns None),
      get_credential_state = (\<lambda>f m. Returns None),
      writes = []\<rparr>"

text \<open>
  The push of the spec's end-to-end example (flattened, the secret in the body), and a
  push for a project no stored record has (the secret in the header, an empty nested
  \<^verbatim>\<open>credential\<close>, a \<^verbatim>\<open>name\<close>).
\<close>

definition p1_push :: request where
  "p1_push =
     \<lparr>authorization = None,
      json_body = Some (JObj [(''token'', JStr ''S''), (''client_id'', JStr ''c1''),
                              (''refresh_token'', JStr ''r1''), (''project_id'', JStr ''p1''),
                              (''mode'', JStr ''geminicli'')])\<rparr>"

definition p9_push :: request where
  "p9_push =
     \<lparr>authorization = Some ''Bearer S'',
      json_body = Some (JObj [(''credential'', JObj []), (''client_id'', JStr ''c9''),
                              (''refresh_token'', JStr ''r9''), (''project_id'', JStr ''p9''),
                              (''name'', JStr ''work'')])\<rparr>"

section \<open>Auxiliary facts\<close>

lemma py_eq_JStr [simp]: "py_eq v (JStr s) = (v = JStr s)"
  by (cases v) auto

lemma check_connection_token_Inr:
  "check_connection_token d env req bj = Inr body \<longleftrightarrow>
     plugin_token env \<noteq> [] \<and> bj = JObj body \<and> request_token req body = JStr (plugin_token env)"
  by (cases bj) (auto simp: check_connection_token_def Let_def)

lemma collect_tokens_append:
  "collect_tokens env st m fs acc = acc @ List.map_filter (token_summary env st m) fs"
  by (induction fs arbitrary: acc) (auto simp: List.map_filter_simps split: option.splits)

lemma refresh_emails_filter:
  "refresh_emails ts =
     map email (filter (\<lambda>t. needs_refresh t \<and> is_active t \<and> truthy (email t)) ts)"
  by (induction ts) auto

lemma count_list_map_filter:
  "count_list (map f (filter P xs)) e = length (filter (\<lambda>x. P x \<and> f x = e) xs)"
  by (induction xs) auto

lemma check_tokens_Inr:
  "check_tokens env st req = Inr resp \<Longrightarrow>
     \<exists>body. query_body req = JObj body \<and> plugin_token env \<noteq> [] \<and>
       request_token req body = JStr (plugin_token env) \<and>
       tokens resp = List.map_filter (token_summary env st (resolve_mode body))
                       (list_credentials st (resolve_mode body)) \<and>
       needs_refresh_emails resp = refresh_emails (tokens resp)"
  by (auto simp: check_tokens_def Let_def collect_tokens_append check_connection_token_Inr
           split: sum.splits)

text \<open>The query of the example store, evaluated.\<close>

lemma query_example:
  "check_tokens demo_env query_store query_request =
     Inr \<lparr>tokens =
        [\<lparr>tok_filename = ''fresh.json'', email = JStr ''a@x'',
            is_active = True, needs_refresh = False, error_codes = JArr []\<rparr>,
         \<lparr>tok_filename = ''stale.json'', email = JStr ''b@x'',
            is_active = True, needs_refresh = True, error_codes = JArr []\<rparr>,
         \<lparr>tok_filename = ''norecord.json'', email = JStr ''c@x'',
            is_active = False, needs_refresh = False,
            error_codes = JArr [JInt 429]\<rparr>,
         \<lparr>tok_filename = ''empty.json'', email = JStr [], is_active = True,
            needs_refresh = False, error_codes = JArr []\<rparr>,
         \<lparr>tok_filename = ''naive.json'', email = JStr ''b@x'',
            is_active = True, needs_refresh = True, error_codes = JArr []\<rparr>],
        needs_refresh_emails = [JStr ''b@x'', JStr ''b@x'']\<rparr>"
  by (simp add: check_tokens_def query_body_def query_request_def demo_env_def query_store_def
      query_creds_def query_states_def check_connection_token_def request_token_def
      startswith_def resolve_mode_def dict_get_def token_summary_def state_get_def
      compute_needs_refresh_def replace_Z_def demo_fromisoformat_def Let_def)

section \<open>The aggregated list of emails\<close>

text \<open>
  Claim C5. For every authenticated check-tokens query, \<^verbatim>\<open>needs_refresh_emails\<close> is exactly
  the emails of the entries of \<^verbatim>\<open>tokens\<close> with \<^verbatim>\<open>needs_refresh\<close> true, \<^verbatim>\<open>is_active\<close> true and
  a non-empty (truthy) email, in the order of \<^verbatim>\<open>tokens\<close>; a repeated email is not
  deduplicated: each value occurs as often as there are such entries carrying it.
\<close>

theorem needs_refresh_emails_exact:
  assumes "check_tokens env st req = Inr resp"
  shows "needs_refresh_emails resp =
           map email (filter (\<lambda>t. needs_refresh t \<and> is_active t \<and> truthy (email t)) (tokens resp))
         \<and> (\<forall>e. count_list (needs_refresh_emails resp) e =
                  length (filter (\<lambda>t. (needs_refresh t \<and> is_active t \<and> truthy (email t)) \<and> email t = e)
                            (tokens resp)))"
proof -
  from check_tokens_Inr [OF assms]
  have "needs_refresh_emails resp = refresh_emails (tokens resp)" by blast
  then have eq: "needs_refresh_emails resp =
      map email (filter (\<lambda>t. needs_refresh t \<and> is_active t \<and> truthy (email t)) (tokens resp))"
    by (simp only: refresh_emails_filter)
  show ?thesis
    unfolding eq by (simp only: count_list_map_filter simp_thms)
qed

theorem needs_refresh_emails_exact_witness:
  "\<exists>resp. check_tokens demo_env query_store query_request = Inr resp
     \<and> needs_refresh_emails resp = [JStr ''b@x'', JStr ''b@x'']
     \<and> count_list (needs_refresh_emails resp) (JStr ''b@x'') = 2"
  using needs_refresh_emails_exact [OF query_example]
  by (simp add: query_example)

section \<open>The refresh flag of a summary\<close>

lemma sub_datetime_now:
  "sub_datetime d (Aware n) = (case d of Naive w \<Rightarrow> None | Aware u \<Rightarrow> Some (u - n))"
  by (cases d) auto

lemma compute_needs_refresh_iff:
  "compute_needs_refresh env cred \<longleftrightarrow>
     (\<exists>c. cred = Some c \<and> c \<noteq> [] \<and>
        (map_of c ''expiry'' = None \<or>
         (\<exists>v. map_of c ''expiry'' = Some v \<and>
            (\<not> truthy v \<or> (\<forall>s. v \<noteq> JStr s) \<or>
             (\<exists>s. v = JStr s \<and>
                (fromisoformat env (replace_Z s) = None \<or>
                 (\<exists>w. fromisoformat env (replace_Z s) = Some (Naive w)) \<or>
                 (\<exists>u. fromisoformat env (replace_Z s) = Some (Aware u) \<and>
                      u - utc_now env < 300 * 1000000)))))))"
proof (cases cred)
  case None
  then show ?thesis by (simp add: compute_needs_refresh_def)
next
  case (Some c)
  show ?thesis
  proof (cases "map_of c ''expiry''")
    case None
    with Some show ?thesis
      by (auto simp: compute_needs_refresh_def dict_get_def)
  next
    case (Some v) note v = this
    show ?thesis
    proof (cases v)
      case (JStr s)
      with v \<open>cred = Some c\<close> show ?thesis
        by (cases "fromisoformat env (replace_Z s)")
           (auto simp: compute_needs_refresh_def dict_get_def Let_def sub_datetime_now
                 split: datetime.splits)
    qed (use v \<open>cred = Some c\<close> in
         \<open>auto simp: compute_needs_refresh_def dict_get_def Let_def\<close>)
  qed
qed

lemma token_summary_Some:
  "token_summary env st m f = Some t \<Longrightarrow>
     \<exists>state cred. get_credential_state st f m = Returns state \<and>
       get_credential st f m = Returns cred \<and>
       t = \<lparr>tok_filename = f, email = state_get state ''user_email'' (JStr ''''),
            is_active = (\<not> truthy (state_get state ''disabled'' (JBool False))),
            needs_refresh = compute_needs_refresh env cred,
            error_codes = state_get state ''error_codes'' (JArr [])\<rparr>"
  by (auto simp: token_summary_def Let_def split: outcome.splits)

lemma set_map_filter_iff:
  "t \<in> set (List.map_filter g xs) \<longleftrightarrow> (\<exists>x \<in> set xs. g x = Some t)"
  by (induction xs) (auto simp: List.map_filter_simps split: option.splits)

lemma state_get_case:
  "state_get state k d = (case state of None \<Rightarrow> d | Some m \<Rightarrow> dict_get m k d)"
  by (auto simp: state_get_def dict_get_def split: option.splits)

lemma check_tokens_authenticated:
  assumes "plugin_token env \<noteq> []" and "query_body req = JObj body"
    and "request_token req body = JStr (plugin_token env)"
  shows "check_tokens env st req =
     Inr \<lparr>tokens = List.map_filter (token_summary env st (resolve_mode body))
                      (list_credentials st (resolve_mode body)),
          needs_refresh_emails =
            refresh_emails (List.map_filter (token_summary env st (resolve_mode body))
                             (list_credentials st (resolve_mode body)))\<rparr>"
proof -
  from assms have "check_connection_token PluginNotConfigured env req (JObj body) = Inr body"
    by (simp add: check_connection_token_Inr)
  with assms(2) show ?thesis
    by (simp add: check_tokens_def Let_def collect_tokens_append)
qed

text \<open>
  Claim C1, as the code has it. For every summary returned by an authenticated check-tokens
  query, the credential read of its file returned, and \<^verbatim>\<open>needs_refresh\<close> is true if and
  only if the credential record is present and not empty and its \<^verbatim>\<open>expiry\<close> is absent, or
  falsy, or not a string, or does not parse (every \<^verbatim>\<open>Z\<close> replaced by \<^verbatim>\<open>+00:00\<close> first),
  or parses to a datetime without an offset, or parses to a time less than 300 seconds
  after the current UTC time. For a missing or empty record \<^verbatim>\<open>needs_refresh\<close> is false.
\<close>

theorem needs_refresh_by_expiry:
  assumes "check_tokens env st req = Inr resp"
      and "query_body req = JObj body"
      and "t \<in> set (tokens resp)"
  shows "\<exists>cred. get_credential st (tok_filename t) (resolve_mode body) = Returns cred \<and>
          (needs_refresh t \<longleftrightarrow>
            (\<exists>c. cred = Some c \<and> c \<noteq> [] \<and>
               (map_of c ''expiry'' = None \<or>
                (\<exists>v. map_of c ''expiry'' = Some v \<and>
                   (\<not> truthy v \<or> (\<forall>s. v \<noteq> JStr s) \<or>
                    (\<exists>s. v = JStr s \<and>
                       (fromisoformat env (replace_Z s) = None \<or>
                        (\<exists>w. fromisoformat env (replace_Z s) = Some (Naive w)) \<or>
                        (\<exists>u. fromisoformat env (replace_Z s) = Some (Aware u) \<and>
                             u - utc_now env < 300 * 1000000))))))))"
proof -
  from check_tokens_Inr [OF assms(1)] assms(2)
  have toks: "tokens resp = List.map_filter (token_summary env st (resolve_mode body))
                (list_credentials st (resolve_mode body))"
    by auto
  with assms(3) obtain f where "token_summary env st (resolve_mode body) f = Some t"
    by (auto simp: set_map_filter_iff)
  from token_summary_Some [OF this] obtain state cred where
    c: "get_credential st f (resolve_mode body) = Returns cred" and
    t: "t = \<lparr>tok_filename = f, email = state_get state ''user_email'' (JStr ''''),
            is_active = (\<not> truthy (state_get state ''disabled'' (JBool False))),
            needs_refresh = compute_needs_refresh env cred,
            error_codes = state_get state ''error_codes'' (JArr [])\<rparr>"
    by blast
  from t have "tok_filename t = f" "needs_refresh t = compute_needs_refresh env cred"
    by simp_all
  with c show ?thesis
    by (simp only: compute_needs_refresh_iff) blast
qed

theorem needs_refresh_by_expiry_witness:
  "\<exists>resp body.
     check_tokens demo_env query_store query_request = Inr resp \<and>
     query_body query_request = JObj body \<and>
     \<lparr>tok_filename = ''stale.json'', email = JStr ''b@x'', is_active = True,
      needs_refresh = True, error_codes = JArr []\<rparr> \<in> set (tokens resp) \<and>
     (\<exists>cred. get_credential query_store ''stale.json'' (resolve_mode body) = Returns cred)"
proof -
  let ?t = "\<lparr>tok_filename = ''stale.json'', email = JStr ''b@x'', is_active = True,
             needs_refresh = True, error_codes = JArr []\<rparr>"
  obtain resp where r: "check_tokens demo_env query_store query_request = Inr resp"
    and m: "?t \<in> set (tokens resp)"
    using query_example by simp
  have b: "query_body query_request = JObj [(''mode'', JStr ''geminicli'')]"
    by (simp add: query_body_def query_request_def)
  from needs_refresh_by_expiry [OF r b m]
  obtain cred where
    "get_credential query_store ''stale.json'' (resolve_mode [(''mode'', JStr ''geminicli'')])
       = Returns cred"
    by auto
  with r b m show ?thesis by blast
qed

text \<open>
  Claim C1 as stated fails on the example store: the record of \<^verbatim>\<open>empty.json\<close> is the
  empty dict and that of \<^verbatim>\<open>norecord.json\<close> is missing, so neither has an \<^verbatim>\<open>expiry\<close>, yet
  both summaries have \<^verbatim>\<open>needs_refresh\<close> false; and the expiry of \<^verbatim>\<open>naive.json\<close> parses
  and lies one hour ahead, yet its summary has \<^verbatim>\<open>needs_refresh\<close> true.
\<close>

theorem needs_refresh_without_record_counterexample:
  "check_tokens demo_env query_store query_request =
     Inr \<lparr>tokens =
        [\<lparr>tok_filename = ''fresh.json'', email = JStr ''a@x'',
            is_active = True, needs_refresh = False, error_codes = JArr []\<rparr>,
         \<lparr>tok_filename = ''stale.json'', email = JStr ''b@x'',
            is_active = True, needs_refresh = True, error_codes = JArr []\<rparr>,
         \<lparr>tok_filename = ''norecord.json'', email = JStr ''c@x'',
            is_active = False, needs_refresh = False,
            error_codes = JArr [JInt 429]\<rparr>,
         \<lparr>tok_filename = ''empty.json'', email = JStr [], is_active = True,
            needs_refresh = False, error_codes = JArr []\<rparr>,
         \<lparr>tok_filename = ''naive.json'', email = JStr ''b@x'',
            is_active = True, needs_refresh = True, error_codes = JArr []\<rparr>],
        needs_refresh_emails = [JStr ''b@x'', JStr ''b@x'']\<rparr>
   \<and> get_credential query_store ''norecord.json'' Geminicli = Returns None
   \<and> get_credential query_store ''empty.json'' Geminicli = Returns (Some [])
   \<and> map_of ([] :: dict) ''expiry'' = None
   \<and> get_credential query_store ''naive.json'' Geminicli =
        Returns (Some [(''client_id'', JStr ''c''), (''expiry'', JStr ''2023-11-14T23:13:20'')])
   \<and> fromisoformat demo_env (replace_Z ''2023-11-14T23:13:20'') = Some (Naive 1700003600000000)
   \<and> 1700003600000000 - utc_now demo_env = 3600 * 1000000"
  using query_example
  by (simp add: query_store_def query_creds_def demo_env_def demo_fromisoformat_def
      replace_Z_def)

section \<open>A file without a credential record\<close>

text \<open>
  Claim C9. In an authenticated check-tokens query, when the store returns no credential
  record (\<^verbatim>\<open>None\<close>) for a listed file whose state was read, the file is still in the
  returned \<^verbatim>\<open>tokens\<close>, with \<^verbatim>\<open>needs_refresh\<close> false and with \<^verbatim>\<open>email\<close>, \<^verbatim>\<open>is_active\<close> and
  \<^verbatim>\<open>error_codes\<close> taken from the state, or their defaults when the state is missing too.
\<close>

theorem absent_record_still_listed:
  assumes "plugin_token env \<noteq> []" and "query_body req = JObj body"
    and "request_token req body = JStr (plugin_token env)"
    and "f \<in> set (list_credentials st (resolve_mode body))"
    and "get_credential_state st f (resolve_mode body) = Returns state"
    and "get_credential st f (resolve_mode body) = Returns None"
  shows "\<exists>resp. check_tokens env st req = Inr resp \<and>
     \<lparr>tok_filename = f,
      email = (case state of None \<Rightarrow> JStr '''' | Some d \<Rightarrow> dict_get d ''user_email'' (JStr '''')),
      is_active = (\<not> truthy (case state of None \<Rightarrow> JBool False
                               | Some d \<Rightarrow> dict_get d ''disabled'' (JBool False))),
      needs_refresh = False,
      error_codes = (case state of None \<Rightarrow> JArr []
                     | Some d \<Rightarrow> dict_get d ''error_codes'' (JArr []))\<rparr>
       \<in> set (tokens resp)"
proof -
  let ?t = "\<lparr>tok_filename = f,
      email = (case state of None \<Rightarrow> JStr '''' | Some d \<Rightarrow> dict_get d ''user_email'' (JStr '''')),
      is_active = (\<not> truthy (case state of None \<Rightarrow> JBool False
                               | Some d \<Rightarrow> dict_get d ''disabled'' (JBool False))),
      needs_refresh = False,
      error_codes = (case state of None \<Rightarrow> JArr []
                     | Some d \<Rightarrow> dict_get d ''error_codes'' (JArr []))\<rparr>"
  from assms(5,6) have "token_summary env st (resolve_mode body) f = Some ?t"
    by (simp add: token_summary_def Let_def state_get_case compute_needs_refresh_def)
  with assms(4) have "?t \<in> set (List.map_filter (token_summary env st (resolve_mode body))
                                 (list_credentials st (resolve_mode body)))"
    by (auto simp: set_map_filter_iff)
  then show ?thesis
    by (simp add: check_tokens_authenticated [OF assms(1-3)])
qed

theorem absent_record_still_listed_witness:
  "\<exists>resp. check_tokens demo_env query_store query_request = Inr resp \<and>
     \<lparr>tok_filename = ''norecord.json'', email = JStr ''c@x'', is_active = False,
      needs_refresh = False, error_codes = JArr [JInt 429]\<rparr> \<in> set (tokens resp)"
proof -
  have e: "plugin_token demo_env \<noteq> []" by (simp add: demo_env_def)
  have b: "query_body query_request = JObj [(''mode'', JStr ''geminicli'')]"
    by (simp add: query_body_def query_request_def)
  have m: "resolve_mode [(''mode'', JStr ''geminicli'')] = Geminicli"
    by (simp add: resolve_mode_def dict_get_def)
  have t: "request_token query_request [(''mode'', JStr ''geminicli'')]
             = JStr (plugin_token demo_env)"
    by (simp add: request_token_def query_request_def startswith_def demo_env_def)
  have f: "''norecord.json'' \<in> set (list_credentials query_store
             (resolve_mode [(''mode'', JStr ''geminicli'')]))"
    by (simp add: m query_store_def query_creds_def)
  have s: "get_credential_state query_store ''norecord.json''
             (resolve_mode [(''mode'', JStr ''geminicli'')]) =
           Returns (Some [(''user_email'', JStr ''c@x''), (''disabled'', JBool True),
                          (''error_codes'', JArr [JInt 429])])"
    by (simp add: m query_store_def query_states_def)
  have c: "get_credential query_store ''norecord.json''
             (resolve_mode [(''mode'', JStr ''geminicli'')]) = Returns None"
    by (simp add: m query_store_def query_creds_def)
  show ?thesis
    using absent_record_still_listed [OF e b t f s c]
    by (simp add: dict_get_def)
qed

section \<open>The stages of the intake route\<close>

lemma validate_credential_cases:
  "validate_credential v = Inl e \<Longrightarrow>
     e = HTTPException 400 MissingCredential \<or> e = HTTPException 400 MissingIdentity \<or>
     e = AttributeError"
  by (cases v) (auto simp: validate_credential_def Let_def split: if_splits)

lemma make_filename_cases: "make_filename env b c = Inl e \<Longrightarrow> e = AttributeError"
  by (auto simp: make_filename_def Let_def split: if_splits json.splits)

lemma update_token_authenticated:
  assumes "plugin_token env \<noteq> []" and "json_body req = Some (JObj b)"
    and "request_token req b = JStr (plugin_token env)"
  shows "update_token env st req =
     (case validate_credential (extract_credential b) of
        Inl e \<Rightarrow> (Inl e, st)
      | Inr credential \<Rightarrow>
          (case make_filename env b credential of
             Inl e \<Rightarrow> (Inl e, st)
           | Inr filename \<Rightarrow>
               (case store_credential st (resolve_mode b) credential filename of
                  (resp, st') \<Rightarrow> (Inr resp, st'))))"
proof -
  from assms have "check_connection_token TokenNotConfigured env req (JObj b) = Inr b"
    by (simp add: check_connection_token_Inr)
  with assms(2) show ?thesis by (simp add: update_token_def)
qed

lemma update_token_rejected:
  assumes "plugin_token env \<noteq> []" and "json_body req = Some (JObj b)"
    and "request_token req b \<noteq> JStr (plugin_token env)"
  shows "update_token env st req = (Inl (HTTPException 401 InvalidToken), st)"
  using assms by (auto simp: update_token_def check_connection_token_def Let_def)

lemma check_tokens_rejected:
  assumes "plugin_token env \<noteq> []" and "query_body req = JObj b"
    and "request_token req b \<noteq> JStr (plugin_token env)"
  shows "check_tokens env st req = Inl (HTTPException 401 InvalidToken)"
  using assms by (auto simp: check_tokens_def check_connection_token_def Let_def)

lemma update_token_not_401:
  assumes "plugin_token env \<noteq> []" and "json_body req = Some (JObj b)"
    and "request_token req b = JStr (plugin_token env)"
  shows "fst (update_token env st req) \<noteq> Inl (HTTPException 401 d)"
    and "fst (update_token env st req) \<noteq> Inl (HTTPException 503 d)"
  by (auto simp: update_token_authenticated [OF assms]
           split: sum.splits prod.splits
           dest!: validate_credential_cases make_filename_cases)

lemma request_token_presented:
  "request_token req b =
     (case authorization req of
        None \<Rightarrow> dict_get b ''token'' (JStr '''')
      | Some h \<Rightarrow> if take 7 h = ''Bearer '' then JStr (drop 7 h)
                  else dict_get b ''token'' (JStr ''''))"
proof -
  have "length ''Bearer '' = 7" by simp
  then show ?thesis
    by (simp only: request_token_def startswith_def Let_def split: option.splits) simp
qed

lemma truthy_secret: "s \<noteq> [] \<Longrightarrow> (truthy p \<and> p = JStr s) = (p = JStr s)"
  by auto

lemma failure_leaves_store:
  "fst (update_token env st req) = Inl e \<Longrightarrow> snd (update_token env st req) = st"
  by (auto simp: update_token_def split: option.splits sum.splits prod.splits)

lemma missing_identity_rejected:
  assumes "plugin_token env \<noteq> []" and "json_body req = Some (JObj b)"
    and "request_token req b = JStr (plugin_token env)"
    and "extract_credential b = JObj c"
    and "\<not> truthy (dict_get c ''client_id'' JNull) \<or> \<not> truthy (dict_get c ''refresh_token'' JNull)"
  shows "update_token env st req =
           (Inl (HTTPException 400 (if c = [] then MissingCredential else MissingIdentity)), st)"
  using assms(4,5)
  by (auto simp: update_token_authenticated [OF assms(1-3)] validate_credential_def Let_def)

section \<open>The check of the connection token\<close>

text \<open>
  Claim C3, as the code has it. While a secret is configured, for every intake request
  whose body parsed as a JSON object, and every query request whose body is a JSON object
  or did not parse (it is then taken as the empty object): the request fails with status
  401 if and only if the presented secret (the \<^verbatim>\<open>Authorization\<close> header after its
  \<^verbatim>\<open>"Bearer "\<close> prefix when the header has that prefix, otherwise the body's \<^verbatim>\<open>token\<close>) is
  not a non-empty value equal to the configured secret. A rejected intake writes nothing,
  and an accepted query is answered. An intake request whose body did not parse is answered
  400 before the secret is looked at.
\<close>

theorem token_check_decides_401:
  assumes "plugin_token env \<noteq> []"
  shows "(let p = (case authorization req of
                     None \<Rightarrow> dict_get b ''token'' (JStr '''')
                   | Some h \<Rightarrow> if take 7 h = ''Bearer '' then JStr (drop 7 h)
                               else dict_get b ''token'' (JStr ''''));
              ok = (truthy p \<and> p = JStr (plugin_token env))
          in (json_body req = Some (JObj b) \<longrightarrow>
                (fst (update_token env st req) = Inl (HTTPException 401 InvalidToken)) = (\<not> ok)
                \<and> (\<not> ok \<longrightarrow> snd (update_token env st req) = st))
           \<and> (query_body req = JObj b \<longrightarrow>
                (check_tokens env st req = Inl (HTTPException 401 InvalidToken)) = (\<not> ok)
                \<and> (ok \<longrightarrow> (\<exists>resp. check_tokens env st req = Inr resp)))
           \<and> (json_body req = None \<longrightarrow>
                update_token env st req = (Inl (HTTPException 400 InvalidJson), st)))"
proof -
  let ?p = "request_token req b"
  have ok: "(truthy ?p \<and> ?p = JStr (plugin_token env)) = (?p = JStr (plugin_token env))"
    using assms by (rule truthy_secret)
  have intake: "(fst (update_token env st req) = Inl (HTTPException 401 InvalidToken))
                  = (?p \<noteq> JStr (plugin_token env))
                \<and> (?p \<noteq> JStr (plugin_token env) \<longrightarrow> snd (update_token env st req) = st)"
    if "json_body req = Some (JObj b)"
    using update_token_rejected [OF assms that] update_token_not_401(1) [OF assms that]
    by (cases "?p = JStr (plugin_token env)") auto
  have query: "(check_tokens env st req = Inl (HTTPException 401 InvalidToken))
                  = (?p \<noteq> JStr (plugin_token env))
               \<and> (?p = JStr (plugin_token env) \<longrightarrow> (\<exists>resp. check_tokens env st req = Inr resp))"
    if "query_body req = JObj b"
    using check_tokens_rejected [OF assms that] check_tokens_authenticated [OF assms that]
    by (cases "?p = JStr (plugin_token env)") auto
  have malformed: "update_token env st req = (Inl (HTTPException 400 InvalidJson), st)"
    if "json_body req = None"
    using that by (simp add: update_token_def)
  show ?thesis
    unfolding Let_def request_token_presented [symmetric] ok
    using intake query malformed by blast
qed

theorem token_check_decides_401_witness:
  "plugin_token demo_env \<noteq> []
   \<and> fst (update_token demo_env intake_store
            \<lparr>authorization = Some ''Bearer nope'',
             json_body = Some (JObj [(''token'', JStr ''S'')])\<rparr>)
       = Inl (HTTPException 401 InvalidToken)
   \<and> fst (update_token demo_env intake_store p1_push) \<noteq> Inl (HTTPException 401 InvalidToken)
   \<and> check_tokens demo_env query_store \<lparr>authorization = Some ''Basic S'', json_body = None\<rparr>
       = Inl (HTTPException 401 InvalidToken)
   \<and> (\<exists>resp. check_tokens demo_env query_store query_request = Inr resp)"
proof -
  have e: "plugin_token demo_env \<noteq> []" by (simp add: demo_env_def)
  note t = token_check_decides_401 [OF e]
  have 1: "fst (update_token demo_env intake_store
            \<lparr>authorization = Some ''Bearer nope'',
             json_body = Some (JObj [(''token'', JStr ''S'')])\<rparr>)
       = Inl (HTTPException 401 InvalidToken)"
    using t [where req = "\<lparr>authorization = Some ''Bearer nope'',
                  json_body = Some (JObj [(''token'', JStr ''S'')])\<rparr>"
                and b = "[(''token'', JStr ''S'')]" and st = intake_store]
    by (simp add: demo_env_def Let_def)
  have 2: "fst (update_token demo_env intake_store p1_push)
             \<noteq> Inl (HTTPException 401 InvalidToken)"
    using t [where req = p1_push
                and b = "[(''token'', JStr ''S''), (''client_id'', JStr ''c1''),
                          (''refresh_token'', JStr ''r1''), (''project_id'', JStr ''p1''),
                          (''mode'', JStr ''geminicli'')]" and st = intake_store]
    by (simp add: demo_env_def p1_push_def dict_get_def Let_def)
  have 3: "check_tokens demo_env query_store \<lparr>authorization = Some ''Basic S'', json_body = None\<rparr>
       = Inl (HTTPException 401 InvalidToken)"
    using t [where req = "\<lparr>authorization = Some ''Basic S'', json_body = None\<rparr>"
                and b = "[]" and st = query_store]
    by (simp add: demo_env_def query_body_def dict_get_def Let_def)
  have 4: "\<exists>resp. check_tokens demo_env query_store query_request = Inr resp"
    using t [where req = query_request and b = "[(''mode'', JStr ''geminicli'')]"
                and st = query_store]
    by (simp add: demo_env_def query_body_def query_request_def Let_def)
  from e 1 2 3 4 show ?thesis by blast
qed

text \<open>
  Claim C3 as stated fails for the intake route: a request whose body does not parse is
  answered 400 before the secret is looked at, whether the presented secret is wrong (the
  claim says 401) or right (the claim says it authenticates).
\<close>

theorem malformed_body_precedes_token_check_counterexample:
  "update_token demo_env intake_store \<lparr>authorization = Some ''Bearer wrong'', json_body = None\<rparr>
     = (Inl (HTTPException 400 InvalidJson), intake_store)
   \<and> update_token demo_env intake_store \<lparr>authorization = Some ''Bearer S'', json_body = None\<rparr>
     = (Inl (HTTPException 400 InvalidJson), intake_store)
   \<and> plugin_token demo_env = ''S''"
  by (simp add: update_token_def demo_env_def)

section \<open>Intake with no secret configured\<close>

text \<open>
  Claim C4, as the code has it. For every intake request made while no secret is
  configured: when the body parses as JSON, whatever its content (an object or not), the
  request fails with status 503; when the body does not parse, the request fails with
  status 400, since the body is parsed before the secret is checked. Nothing is written.
\<close>

theorem unconfigured_intake:
  assumes "plugin_token env = []"
  shows "update_token env st req =
           (case json_body req of
              None \<Rightarrow> (Inl (HTTPException 400 InvalidJson), st)
            | Some body_json \<Rightarrow> (Inl (HTTPException 503 TokenNotConfigured), st))"
  using assms
  by (simp add: update_token_def check_connection_token_def split: option.splits)

theorem unconfigured_intake_witness:
  "plugin_token unconfigured_env = []
   \<and> update_token unconfigured_env intake_store
        \<lparr>authorization = Some ''Bearer S'', json_body = Some (JArr [])\<rparr>
       = (Inl (HTTPException 503 TokenNotConfigured), intake_store)"
proof -
  have e: "plugin_token unconfigured_env = []"
    by (simp add: unconfigured_env_def)
  show ?thesis
    using e unconfigured_intake [OF e, where st = intake_store
            and req = "\<lparr>authorization = Some ''Bearer S'', json_body = Some (JArr [])\<rparr>"]
    by simp
qed

text \<open>
  Claim C4 as stated fails: with no secret configured, a body that is not well-formed JSON
  is answered 400, not 503.
\<close>

theorem unconfigured_malformed_body_counterexample:
  "plugin_token unconfigured_env = []
   \<and> update_token unconfigured_env intake_store \<lparr>authorization = None, json_body = None\<rparr>
       = (Inl (HTTPException 400 InvalidJson), intake_store)"
  by (simp add: update_token_def unconfigured_env_def)

section \<open>Exceptions that leave the intake route\<close>

text \<open>
  Claim C8 fails on the code. With the secret configured, a body that is a JSON array
  raises \<^verbatim>\<open>AttributeError\<close> at \<^verbatim>\<open>body.get("token", "")\<close> (line 94), and a \<^verbatim>\<open>filename\<close>
  that is a number raises it at \<^verbatim>\<open>filename.endswith\<close> (line 134); neither is one of the
  errors 503, 401 or 400. The helper \<^verbatim>\<open>_verify_plugin_token\<close>, which reads the token inside
  a \<^verbatim>\<open>try\<close>, answers the array body with a 401.
\<close>

theorem non_object_body_escapes:
  "update_token demo_env intake_store
     \<lparr>authorization = Some ''Bearer S'', json_body = Some (JArr [])\<rparr>
     = (Inl AttributeError, intake_store)
   \<and> update_token demo_env intake_store
     \<lparr>authorization = Some ''Bearer S'',
      json_body = Some (JObj [(''client_id'', JStr ''c''), (''refresh_token'', JStr ''r''),
                              (''filename'', JInt 5)])\<rparr>
     = (Inl AttributeError, intake_store)
   \<and> verify_plugin_token demo_env \<lparr>authorization = None, json_body = Some (JArr [])\<rparr>
     = Inl (HTTPException 401 InvalidToken)"
  by (simp add: update_token_def check_connection_token_def demo_env_def request_token_def
      startswith_def extract_credential_def validate_credential_def make_filename_def
      cred_keys_def dict_get_def verify_plugin_token_def Let_def)

theorem non_object_body_escapes_witness:
  "fst (update_token demo_env intake_store
     \<lparr>authorization = Some ''Bearer S'', json_body = Some (JArr [])\<rparr>) = Inl AttributeError"
  using non_object_body_escapes by simp

text \<open>
  Claim C6 fails on the code. An authenticated push whose nested \<^verbatim>\<open>credential\<close> is a
  non-empty string has no \<^verbatim>\<open>client_id\<close> and no \<^verbatim>\<open>refresh_token\<close>, yet the request does
  not fail with 400: \<^verbatim>\<open>credential.get("refresh_token")\<close> (line 114) raises
  \<^verbatim>\<open>AttributeError\<close>. Nothing is written. For a candidate that is an object the claim
  holds (\<open>missing_identity_rejected\<close>).
\<close>

theorem non_object_credential_escapes:
  "update_token demo_env intake_store
     \<lparr>authorization = Some ''Bearer S'',
      json_body = Some (JObj [(''credential'', JStr ''abc'')])\<rparr>
     = (Inl AttributeError, intake_store)"
  by (simp add: update_token_def check_connection_token_def demo_env_def request_token_def
      startswith_def extract_credential_def validate_credential_def dict_get_def Let_def)

theorem non_object_credential_escapes_witness:
  "fst (update_token demo_env intake_store
     \<lparr>authorization = Some ''Bearer S'',
      json_body = Some (JObj [(''credential'', JStr ''abc'')])\<rparr>)
     = Inl AttributeError"
  using non_object_credential_escapes by simp

section \<open>Deduplication and the write\<close>

lemma py_eq_JNull [simp]: "py_eq JNull v = (v = JNull)"
  by (cases v) auto

lemma find_existing_in_listing:
  "find_existing st m pid fs = Some ef \<Longrightarrow> ef \<in> set fs"
  by (induction fs) (auto split: outcome.splits option.splits if_splits)

lemma find_existing_first:
  assumes "get_credential st ef m = Returns (Some d)"
    and "py_eq (dict_get d ''project_id'' JNull) pid" and "truthy pid"
    and "\<forall>f \<in> set pre. \<forall>d'. get_credential st f m = Returns (Some d') \<longrightarrow>
           \<not> py_eq (dict_get d' ''project_id'' JNull) pid"
  shows "find_existing st m pid (pre @ ef # post) = Some ef"
  using assms(4)
proof (induction pre)
  case Nil
  have "d \<noteq> []"
  proof
    assume "d = []"
    with assms(2) have "pid = JNull" by (simp add: dict_get_def)
    with assms(3) show False by simp
  qed
  with assms(1,2) show ?case by simp
next
  case (Cons f pre)
  then show ?case
    by (auto split: outcome.splits option.splits)
qed

lemma write_credential_reads [simp]:
  "get_credential (write_credential m f c st) f m = Returns (Some c)"
  "writes (write_credential m f c st) = writes st @ [(m, f, c)]"
  "set (list_credentials (write_credential m f c st) m') =
     (if m' = m then insert f (set (list_credentials st m)) else set (list_credentials st m'))"
  by (auto simp: write_credential_def)

lemma store_credential_write:
  "store_credential st m c fn0 = (resp, st') \<Longrightarrow>
     st' = write_credential m (resp_filename resp) c st \<and> resp_id resp = resp_filename resp"
  by (cases m)
     (auto simp: store_credential_def Let_def add_credential_def add_antigravity_credential_def)

lemma store_credential_filename:
  "store_credential st m c fn0 = (resp, st') \<Longrightarrow>
     (resp_action resp = ''created'' \<and> resp_filename resp = fn0) \<or>
     (resp_action resp = ''updated'' \<and> resp_filename resp \<in> set (list_credentials st m))"
  by (auto simp: store_credential_def Let_def split: option.splits if_splits
           dest: find_existing_in_listing)

lemma endswith_append [simp]: "endswith (s @ p) p"
  by (simp add: endswith_def)

lemma ensure_json_suffix_ends [simp]: "endswith (ensure_json_suffix f) ''.json''"
  by (simp add: ensure_json_suffix_def)

lemma make_filename_ends: "make_filename env b c = Inr fn \<Longrightarrow> endswith fn ''.json''"
  by (auto simp: make_filename_def Let_def split: if_splits json.splits)

lemma update_token_Inr:
  assumes "update_token env st req = (Inr resp, st')"
  shows "\<exists>b c fn0. json_body req = Some (JObj b) \<and> plugin_token env \<noteq> [] \<and>
           request_token req b = JStr (plugin_token env) \<and>
           validate_credential (extract_credential b) = Inr c \<and>
           make_filename env b c = Inr fn0 \<and>
           store_credential st (resolve_mode b) c fn0 = (resp, st')"
  using assms
  by (auto simp: update_token_def check_connection_token_Inr
           split: option.splits sum.splits prod.splits)

text \<open>The two example pushes, evaluated on the example store.\<close>

lemma p1_push_example:
  "update_token demo_env intake_store p1_push =
     (Inr \<lparr>resp_filename = ''legacy.json'', resp_action = ''updated'', resp_id = ''legacy.json''\<rparr>,
      write_credential Geminicli ''legacy.json''
        [(''token'', JStr ''S''), (''client_id'', JStr ''c1''),
         (''refresh_token'', JStr ''r1''), (''project_id'', JStr ''p1'')] intake_store)"
proof -
  have ls: "list_credentials intake_store Geminicli =
              [''unreadable.json'', ''other.json'', ''legacy.json'', ''p1-copy.json'']"
    by (simp add: intake_store_def intake_creds_def)
  have rd: "get_credential intake_store =
              (\<lambda>f m. if m = Geminicli
                then (case map_of intake_creds f of Some r \<Rightarrow> r | None \<Rightarrow> Returns None)
                else Returns None)"
    by (simp add: intake_store_def)
  show ?thesis
    by (simp add: update_token_def p1_push_def demo_env_def check_connection_token_def
        request_token_def startswith_def extract_credential_def validate_credential_def
        cred_keys_def dict_get_def resolve_mode_def make_filename_def py_str_def
        ensure_json_suffix_def endswith_def str_int_def digits.simps
        store_credential_def ls rd intake_creds_def add_credential_def Let_def)
qed

lemma p9_push_example:
  "update_token demo_env intake_store p9_push =
     (Inr \<lparr>resp_filename = ''work-p9-1700000000.json'', resp_action = ''created'',
           resp_id = ''work-p9-1700000000.json''\<rparr>,
      write_credential Geminicli ''work-p9-1700000000.json''
        [(''client_id'', JStr ''c9''), (''refresh_token'', JStr ''r9''),
         (''project_id'', JStr ''p9'')] intake_store)"
proof -
  have ls: "list_credentials intake_store Geminicli =
              [''unreadable.json'', ''other.json'', ''legacy.json'', ''p1-copy.json'']"
    by (simp add: intake_store_def intake_creds_def)
  have rd: "get_credential intake_store =
              (\<lambda>f m. if m = Geminicli
                then (case map_of intake_creds f of Some r \<Rightarrow> r | None \<Rightarrow> Returns None)
                else Returns None)"
    by (simp add: intake_store_def)
  show ?thesis
    by (simp add: update_token_def p9_push_def demo_env_def check_connection_token_def
        request_token_def startswith_def extract_credential_def validate_credential_def
        cred_keys_def dict_get_def resolve_mode_def make_filename_def py_str_def
        ensure_json_suffix_def endswith_def str_int_def digits.simps
        store_credential_def ls rd intake_creds_def add_credential_def Let_def)
qed

section \<open>The suffix of the returned file name\<close>

text \<open>
  Where the name of a successful push comes from: it is the caller's or the derived name,
  which ends with \<^verbatim>\<open>".json"\<close> (lines 134 and 135), or, with action \<^verbatim>\<open>"updated"\<close>, a name
  the store listed under the resolved mode, taken as it is (line 149).
\<close>

lemma response_filename_cases:
  assumes "update_token env st req = (Inr resp, st')"
  shows "resp_id resp = resp_filename resp
       \<and> (\<exists>m c. st' = write_credential m (resp_filename resp) c st
                \<and> get_credential st' (resp_filename resp) m = Returns (Some c)
                \<and> (endswith (resp_filename resp) ''.json''
                   \<or> resp_action resp = ''updated''
                     \<and> resp_filename resp \<in> set (list_credentials st m)))"
proof -
  from update_token_Inr [OF assms] obtain b c fn0 where
    mk: "make_filename env b c = Inr fn0" and
    sc: "store_credential st (resolve_mode b) c fn0 = (resp, st')"
    by blast
  let ?m = "resolve_mode b"
  from store_credential_write [OF sc] have
    st': "st' = write_credential ?m (resp_filename resp) c st" and
    id: "resp_id resp = resp_filename resp" by simp_all
  from store_credential_filename [OF sc] make_filename_ends [OF mk] have
    fn: "endswith (resp_filename resp) ''.json''
         \<or> resp_action resp = ''updated'' \<and> resp_filename resp \<in> set (list_credentials st ?m)"
    by auto
  have rd: "get_credential st' (resp_filename resp) ?m = Returns (Some c)"
    by (simp add: st')
  from id st' rd fn show ?thesis by blast
qed

lemma intake_store_names:
  "\<forall>m. \<forall>f \<in> set (list_credentials intake_store m). endswith f ''.json''"
  by (simp add: intake_store_def intake_creds_def endswith_def)

text \<open>
  Claim C7. The store holds its records under file names that end with \<^verbatim>\<open>".json"\<close> (the
  spec's data model: a stored filename is "a string identifier ending in a fixed suffix").
  On such a store, for every successful intake push, the \<^verbatim>\<open>filename\<close> of the response ends
  with \<^verbatim>\<open>".json"\<close>, whether it was supplied by the caller, derived, or selected from a stored
  record by the dedup match; it equals the \<^verbatim>\<open>id\<close> and is the name under which the credential
  is written; and every name the store lists after the write ends with \<^verbatim>\<open>".json"\<close> too.
\<close>

theorem response_filename_suffix:
  assumes "update_token env st req = (Inr resp, st')"
    and "\<forall>m. \<forall>f \<in> set (list_credentials st m). endswith f ''.json''"
  shows "endswith (resp_filename resp) ''.json''
       \<and> resp_id resp = resp_filename resp
       \<and> (\<exists>m c. st' = write_credential m (resp_filename resp) c st
                \<and> get_credential st' (resp_filename resp) m = Returns (Some c))
       \<and> (\<forall>m. \<forall>f \<in> set (list_credentials st' m). endswith f ''.json'')"
proof -
  from response_filename_cases [OF assms(1)] obtain m c where
    id: "resp_id resp = resp_filename resp" and
    st': "st' = write_credential m (resp_filename resp) c st" and
    rd: "get_credential st' (resp_filename resp) m = Returns (Some c)" and
    fn: "endswith (resp_filename resp) ''.json''
         \<or> resp_action resp = ''updated'' \<and> resp_filename resp \<in> set (list_credentials st m)"
    by blast
  from fn assms(2) have e: "endswith (resp_filename resp) ''.json''" by blast
  with assms(2) have inv: "\<forall>m. \<forall>f \<in> set (list_credentials st' m). endswith f ''.json''"
    by (auto simp: st' split: if_splits)
  from e id st' rd inv show ?thesis by blast
qed

theorem response_filename_suffix_witness:
  "(\<exists>st'. update_token demo_env intake_store p1_push =
       (Inr \<lparr>resp_filename = ''legacy.json'', resp_action = ''updated'',
             resp_id = ''legacy.json''\<rparr>, st')
     \<and> endswith ''legacy.json'' ''.json''
     \<and> list_credentials st' Geminicli =
         [''unreadable.json'', ''other.json'', ''legacy.json'', ''p1-copy.json''])
   \<and> (\<exists>st'. update_token demo_env intake_store p9_push =
       (Inr \<lparr>resp_filename = ''work-p9-1700000000.json'', resp_action = ''created'',
             resp_id = ''work-p9-1700000000.json''\<rparr>, st')
     \<and> endswith ''work-p9-1700000000.json'' ''.json''
     \<and> get_credential st' ''work-p9-1700000000.json'' Geminicli =
         Returns (Some [(''client_id'', JStr ''c9''), (''refresh_token'', JStr ''r9''),
                        (''project_id'', JStr ''p9'')]))"
proof -
  have ls: "list_credentials intake_store Geminicli =
              [''unreadable.json'', ''other.json'', ''legacy.json'', ''p1-copy.json'']"
    by (simp add: intake_store_def intake_creds_def)
  have 1: "endswith ''legacy.json'' ''.json''"
    using response_filename_suffix [OF p1_push_example intake_store_names] by simp
  have 2: "endswith ''work-p9-1700000000.json'' ''.json''"
    using response_filename_suffix [OF p9_push_example intake_store_names] by simp
  from 1 2 show ?thesis
    by (simp add: p1_push_example p9_push_example write_credential_def ls)
qed

section \<open>A push for a project that is already stored\<close>

lemma truthy_dict_get_nonempty: "truthy (dict_get c k JNull) \<Longrightarrow> c \<noteq> []"
  by (auto simp: dict_get_def)

lemma validate_credential_ok:
  assumes "truthy (dict_get c ''client_id'' JNull)" and "truthy (dict_get c ''refresh_token'' JNull)"
  shows "validate_credential (JObj c) = Inr c"
  using assms truthy_dict_get_nonempty [OF assms(1)]
  by (simp add: validate_credential_def)

lemma make_filename_ok:
  assumes "\<not> truthy (dict_get b ''filename'' (JStr '''')) \<or>
           (\<exists>fn. dict_get b ''filename'' (JStr '''') = JStr fn)"
  shows "\<exists>fn0. make_filename env b c = Inr fn0"
  using assms by (auto simp: make_filename_def Let_def)

text \<open>
  Claim C2. For every authenticated, well-formed intake push (the body an object, the
  candidate credential an object with non-empty \<^verbatim>\<open>client_id\<close> and \<^verbatim>\<open>refresh_token\<close>, the
  \<^verbatim>\<open>filename\<close> field missing, empty or a string) whose candidate has a non-empty
  \<^verbatim>\<open>project_id\<close> equal to the \<^verbatim>\<open>project_id\<close> of a record stored under the resolved mode:
  with \<open>ef\<close> the first file of the store's listing whose record has that \<^verbatim>\<open>project_id\<close>
  (no file listed before it has one), the response's \<^verbatim>\<open>action\<close> is \<^verbatim>\<open>"updated"\<close>, its
  \<^verbatim>\<open>filename\<close> and \<^verbatim>\<open>id\<close> are \<open>ef\<close>, the one write of the request is the candidate under
  \<open>ef\<close>, and the store then holds exactly the candidate there.
\<close>

theorem push_updates_first_match:
  assumes "plugin_token env \<noteq> []"
    and "json_body req = Some (JObj b)"
    and "request_token req b = JStr (plugin_token env)"
    and "extract_credential b = JObj c"
    and "truthy (dict_get c ''client_id'' JNull)"
    and "truthy (dict_get c ''refresh_token'' JNull)"
    and "\<not> truthy (dict_get b ''filename'' (JStr '''')) \<or>
         (\<exists>fn. dict_get b ''filename'' (JStr '''') = JStr fn)"
    and "truthy (dict_get c ''project_id'' (JStr ''''))"
    and "list_credentials st (resolve_mode b) = pre @ ef # post"
    and "get_credential st ef (resolve_mode b) = Returns (Some d)"
    and "py_eq (dict_get d ''project_id'' JNull) (dict_get c ''project_id'' (JStr ''''))"
    and "\<forall>f \<in> set pre. \<forall>d'. get_credential st f (resolve_mode b) = Returns (Some d') \<longrightarrow>
           \<not> py_eq (dict_get d' ''project_id'' JNull) (dict_get c ''project_id'' (JStr ''''))"
  shows "\<exists>st'. update_token env st req =
            (Inr \<lparr>resp_filename = ef, resp_action = ''updated'', resp_id = ef\<rparr>, st')
          \<and> get_credential st' ef (resolve_mode b) = Returns (Some c)
          \<and> writes st' = writes st @ [(resolve_mode b, ef, c)]"
proof -
  let ?m = "resolve_mode b"
  let ?pid = "dict_get c ''project_id'' (JStr '''')"
  from make_filename_ok [OF assms(7)] obtain fn0 where mk: "make_filename env b c = Inr fn0"
    by blast
  have found: "find_existing st ?m ?pid (list_credentials st ?m) = Some ef"
    unfolding assms(9) by (rule find_existing_first [OF assms(10,11,8,12)])
  have sc: "store_credential st ?m c fn0 =
              (\<lparr>resp_filename = ef, resp_action = ''updated'', resp_id = ef\<rparr>,
               write_credential ?m ef c st)"
    using found assms(8)
    by (cases ?m)
       (simp_all add: store_credential_def Let_def add_credential_def
          add_antigravity_credential_def)
  have "update_token env st req =
          (Inr \<lparr>resp_filename = ef, resp_action = ''updated'', resp_id = ef\<rparr>,
           write_credential ?m ef c st)"
    by (simp add: update_token_authenticated [OF assms(1-3)] assms(4)
          validate_credential_ok [OF assms(5,6)] mk sc)
  then show ?thesis by simp
qed

theorem push_updates_first_match_witness:
  "\<exists>st'. update_token demo_env intake_store p1_push =
       (Inr \<lparr>resp_filename = ''legacy.json'', resp_action = ''updated'', resp_id = ''legacy.json''\<rparr>, st')
     \<and> get_credential st' ''legacy.json'' Geminicli =
         Returns (Some [(''token'', JStr ''S''), (''client_id'', JStr ''c1''),
                        (''refresh_token'', JStr ''r1''), (''project_id'', JStr ''p1'')])
     \<and> list_credentials intake_store Geminicli =
         [''unreadable.json'', ''other.json''] @ ''legacy.json'' # [''p1-copy.json'']"
proof -
  let ?b = "[(''token'', JStr ''S''), (''client_id'', JStr ''c1''),
             (''refresh_token'', JStr ''r1''), (''project_id'', JStr ''p1''),
             (''mode'', JStr ''geminicli'')]"
  let ?c = "[(''token'', JStr ''S''), (''client_id'', JStr ''c1''),
             (''refresh_token'', JStr ''r1''), (''project_id'', JStr ''p1'')]"
  have m: "resolve_mode ?b = Geminicli" by (simp add: resolve_mode_def dict_get_def)
  have 1: "plugin_token demo_env \<noteq> []" by (simp add: demo_env_def)
  have 2: "json_body p1_push = Some (JObj ?b)" by (simp add: p1_push_def)
  have 3: "request_token p1_push ?b = JStr (plugin_token demo_env)"
    by (simp add: request_token_def p1_push_def startswith_def dict_get_def demo_env_def)
  have 4: "extract_credential ?b = JObj ?c"
    by (simp add: extract_credential_def dict_get_def cred_keys_def)
  have 5: "truthy (dict_get ?c ''client_id'' JNull)" by (simp add: dict_get_def)
  have 6: "truthy (dict_get ?c ''refresh_token'' JNull)" by (simp add: dict_get_def)
  have 7: "\<not> truthy (dict_get ?b ''filename'' (JStr '''')) \<or>
           (\<exists>fn. dict_get ?b ''filename'' (JStr '''') = JStr fn)"
    by (simp add: dict_get_def)
  have 8: "truthy (dict_get ?c ''project_id'' (JStr ''''))" by (simp add: dict_get_def)
  have 9: "list_credentials intake_store (resolve_mode ?b) =
             [''unreadable.json'', ''other.json''] @ ''legacy.json'' # [''p1-copy.json'']"
    by (simp add: m intake_store_def intake_creds_def)
  have 10: "get_credential intake_store ''legacy.json'' (resolve_mode ?b) =
              Returns (Some [(''project_id'', JStr ''p1''), (''refresh_token'', JStr ''old'')])"
    by (simp add: m intake_store_def intake_creds_def)
  have 11: "py_eq (dict_get [(''project_id'', JStr ''p1''), (''refresh_token'', JStr ''old'')]
                     ''project_id'' JNull)
                  (dict_get ?c ''project_id'' (JStr ''''))"
    by (simp add: dict_get_def)
  have 12: "\<forall>f \<in> set [''unreadable.json'', ''other.json''].
              \<forall>d'. get_credential intake_store f (resolve_mode ?b) = Returns (Some d') \<longrightarrow>
                \<not> py_eq (dict_get d' ''project_id'' JNull) (dict_get ?c ''project_id'' (JStr ''''))"
    by (auto simp: m intake_store_def intake_creds_def dict_get_def)
  from push_updates_first_match [OF 1 2 3 4 5 6 7 8 9 10 11 12]
  obtain st' where
    "update_token demo_env intake_store p1_push =
       (Inr \<lparr>resp_filename = ''legacy.json'', resp_action = ''updated'', resp_id = ''legacy.json''\<rparr>, st')"
    "get_credential st' ''legacy.json'' Geminicli = Returns (Some ?c)"
    unfolding m by blast
  with 9 [unfolded m] show ?thesis by blast
qed

section \<open>An empty nested credential\<close>





lemma request_token_body_update [simp]:
  "request_token (req\<lparr>json_body := j\<rparr>) b = request_token req b"
  by (simp add: request_token_def)




end
